theory Spec2Isabelle
  imports Complex_Main "HOL-Library.Sublist" "HOL-Library.Multiset"
begin

section \<open>Hiraishin: route telemetry, scoring and connection lifecycle\<close>

text \<open>
  A shallow embedding of \<^verbatim>\<open>src/main.js\<close> (class \<^verbatim>\<open>HiraishinVPN\<close> and
  class \<^verbatim>\<open>WireGuardController\<close>) and of the probe module (class
  \<^verbatim>\<open>NetworkProbe\<close>).

  Conventions.
  \<^item> A JavaScript number is a \<open>real option\<close>: \<open>Some x\<close> is the finite value \<open>x\<close>, computed
    exactly (rounding of doubles and the infinities are left out), and \<open>None\<close> is
    \<^verbatim>\<open>NaN\<close>. A property that an object does not have reads \<^verbatim>\<open>undefined\<close>, which
    arithmetic converts to \<^verbatim>\<open>NaN\<close>; a numeric property that is absent is therefore
    \<open>None\<close> as well.
  \<^item> A string is a \<open>string\<close>; a string property that may be absent is a
    \<open>string option\<close>.
  \<^item> An exception is the \<^verbatim>\<open>message\<close> of the thrown \<^verbatim>\<open>Error\<close>: a function that
    may throw returns \<open>string + 'a\<close>, with \<open>Inl msg\<close> for the throw.
  \<^item> \<^verbatim>\<open>console.log\<close> and \<^verbatim>\<open>console.error\<close> have no effect on the state and are
    left out.
\<close>

subsection \<open>Numbers\<close>

type_synonym num = "real option"

definition lift2 :: "(real \<Rightarrow> real \<Rightarrow> real) \<Rightarrow> num \<Rightarrow> num \<Rightarrow> num" where
  "lift2 f a b = (case a of None \<Rightarrow> None | Some x \<Rightarrow> (case b of None \<Rightarrow> None | Some y \<Rightarrow> Some (f x y)))"

text \<open>\<^verbatim>\<open>a + b\<close>, \<^verbatim>\<open>a - b\<close>, \<^verbatim>\<open>a * b\<close>: \<^verbatim>\<open>NaN\<close> as soon as one operand is.\<close>

definition js_add :: "num \<Rightarrow> num \<Rightarrow> num" where
  "js_add = lift2 (+)"

definition js_sub :: "num \<Rightarrow> num \<Rightarrow> num" where
  "js_sub = lift2 (-)"

definition js_mul :: "num \<Rightarrow> num \<Rightarrow> num" where
  "js_mul = lift2 (*)"

text \<open>\<^verbatim>\<open>a / b\<close> for a divisor that is a non-zero literal, the only division of the scoring.\<close>

definition js_div :: "num \<Rightarrow> num \<Rightarrow> num" where
  "js_div = lift2 (/)"

text \<open>\<^verbatim>\<open>Math.max(a, b)\<close> and \<^verbatim>\<open>Math.min(a, b)\<close>: \<^verbatim>\<open>NaN\<close> if an argument is \<^verbatim>\<open>NaN\<close>.\<close>

definition Math_max :: "num \<Rightarrow> num \<Rightarrow> num" where
  "Math_max = lift2 max"

definition Math_min :: "num \<Rightarrow> num \<Rightarrow> num" where
  "Math_min = lift2 min"

text \<open>
  Truthiness of a property holding a string or nothing: \<^verbatim>\<open>undefined\<close> and the empty
  string are falsy, every other string is truthy.
\<close>

definition truthy :: "string option \<Rightarrow> bool" where
  "truthy v = (case v of None \<Rightarrow> False | Some s \<Rightarrow> s \<noteq> [])"

subsection \<open>Metrics samples and the score\<close>

text \<open>
  The object built by \<^verbatim>\<open>analyzeRoute\<close>: either the five measurements and a timestamp,
  or \<^verbatim>\<open>{ error, timestamp }\<close>; \<^verbatim>\<open>analyzeRoutes\<close> also builds \<^verbatim>\<open>{ error }\<close>.
\<close>

record metrics =
  error :: "string option"
  latency :: num
  throughput :: num
  stability :: num
  packetLoss :: num
  jitter :: num
  timestamp :: "int option"

text \<open>
  \<^verbatim>\<open>calculateRouteScore(metrics)\<close>:
  \<^verbatim>\<open>if (metrics.error) return 0;\<close> then the weighted sum, evaluated left to right.
\<close>

definition calculateRouteScore :: "metrics \<Rightarrow> num" where
  "calculateRouteScore m =
     (if truthy (error m) then Some 0
      else
        let latencyScore = Math_max (Some 0) (js_sub (Some 100) (latency m));
            throughputScore = Math_min (Some 100) (js_div (throughput m) (Some 10));
            stabilityScore = js_mul (stability m) (Some 100)
        in js_add (js_add (js_mul latencyScore (Some 0.4)) (js_mul throughputScore (Some 0.4)))
                  (js_mul stabilityScore (Some 0.2)))"

text \<open>The samples of the end-to-end scenario, and the error samples.\<close>

definition sample :: "real \<Rightarrow> real \<Rightarrow> real \<Rightarrow> metrics" where
  "sample l t s = \<lparr>error = None, latency = Some l, throughput = Some t, stability = Some s,
     packetLoss = Some 0, jitter = Some 0, timestamp = Some 0\<rparr>"

definition error_sample :: "string \<Rightarrow> int option \<Rightarrow> metrics" where
  "error_sample msg ts = \<lparr>error = Some msg, latency = None, throughput = None, stability = None,
     packetLoss = None, jitter = None, timestamp = ts\<rparr>"

subsection \<open>Strings\<close>

text \<open>
  Characters are the code units below 256. \<^verbatim>\<open>s.includes(pat)\<close>: \<open>pat\<close> occurs in \<open>s\<close>
  as a contiguous substring.
\<close>

fun str_includes :: "string \<Rightarrow> string \<Rightarrow> bool" where
  "str_includes [] pat = (pat = [])"
| "str_includes (c # cs) pat = (prefix pat (c # cs) \<or> str_includes cs pat)"

text \<open>\<^verbatim>\<open>s.split('\n')\<close>: the pieces between the separators, empty pieces kept.\<close>

fun split_on :: "char \<Rightarrow> string \<Rightarrow> string list" where
  "split_on sep [] = [[]]"
| "split_on sep (c # cs) =
     (if c = sep then [] # split_on sep cs
      else (case split_on sep cs of [] \<Rightarrow> [[c]] | piece # pieces \<Rightarrow> (c # piece) # pieces))"

text \<open>
  The characters that \<^verbatim>\<open>\s\<close> matches and \<^verbatim>\<open>trim()\<close> strips, below 256: tab, line feed,
  vertical tab, form feed, carriage return, space, no-break space.
\<close>

definition is_space :: "char \<Rightarrow> bool" where
  "is_space c = (c \<in> set [CHR 0x09, CHR 0x0A, CHR 0x0B, CHR 0x0C, CHR 0x0D, CHR 0x20, CHR 0xA0])"

definition trim :: "string \<Rightarrow> string" where
  "trim s = rev (dropWhile is_space (rev (dropWhile is_space s)))"

text \<open>
  \<^verbatim>\<open>s.split(/\s+/)\<close>: the pieces between the maximal runs of white space; a run at the
  start or at the end leaves an empty piece there.
\<close>

function split_ws :: "string \<Rightarrow> string list" where
  "split_ws [] = [[]]"
| "split_ws (c # cs) =
     (if is_space c then [] # split_ws (dropWhile is_space cs)
      else (case split_ws cs of [] \<Rightarrow> [[c]] | piece # pieces \<Rightarrow> (c # piece) # pieces))"
  by pat_completeness auto
termination
  by (relation "measure length") (auto simp: length_dropWhile_le le_imp_less_Suc)

text \<open>\<^verbatim>\<open>parts[i]\<close>: \<^verbatim>\<open>undefined\<close> beyond the end of the array.\<close>

definition at_index :: "'a list \<Rightarrow> nat \<Rightarrow> 'a option" where
  "at_index xs i = (if i < length xs then Some (xs ! i) else None)"

text \<open>A value inside a template string: \<^verbatim>\<open>undefined\<close> prints as that word.\<close>

definition template :: "string option \<Rightarrow> string" where
  "template v = (case v of None \<Rightarrow> ''undefined'' | Some s \<Rightarrow> s)"

subsection \<open>Routes\<close>

text \<open>
  The route objects that \<^verbatim>\<open>discoverRoutes\<close> builds. The three kinds carry different
  properties; a property that a kind does not have is \<open>None\<close>. \<open>route_id\<close> is the
  property \<^verbatim>\<open>id\<close>, \<open>metrics = None\<close> is \<^verbatim>\<open>metrics: null\<close>.
\<close>

record route =
  route_id :: string
  name :: string
  type :: string
  ip :: "string option"
  mac :: "string option"
  speed :: num
  ssid :: "string option"
  signal :: num
  security :: "string option"
  destination :: "string option"
  gateway :: "string option"
  iface :: "string option"
  metrics :: "metrics option"
  lastAnalyzed :: "int option"

text \<open>An entry of \<^verbatim>\<open>si.networkInterfaces()\<close>, as far as it is read.\<close>

record netif =
  ni_iface :: string
  ni_type :: string
  ni_operstate :: string
  ni_ip4 :: "string option"
  ni_mac :: "string option"
  ni_speed :: num

text \<open>An entry of \<^verbatim>\<open>wifi.scan()\<close>, as far as it is read.\<close>

record network =
  wn_ssid :: "string option"
  wn_signal :: num
  wn_security :: "string option"

text \<open>An entry of \<^verbatim>\<open>parseLinuxRoutes\<close> and \<^verbatim>\<open>parseWindowsRoutes\<close>.\<close>

record sysroute =
  sr_destination :: string
  sr_gateway :: "string option"
  sr_iface :: "string option"

subsection \<open>Route discovery\<close>

text \<open>
  \<^verbatim>\<open>parseLinuxRoutes(output)\<close>: one entry for each line that contains \<^verbatim>\<open>default\<close>;
  the destination is the constant \<^verbatim>\<open>'0.0.0.0/0'\<close>.
\<close>

definition parseLinuxRoutes :: "string \<Rightarrow> sysroute list" where
  "parseLinuxRoutes output =
     map (\<lambda>line. let parts = split_ws (trim line)
                  in \<lparr>sr_destination = ''0.0.0.0/0'', sr_gateway = at_index parts 2,
                      sr_iface = at_index parts 4\<rparr>)
         (filter (\<lambda>line. str_includes line ''default'') (split_on CHR 0x0A output))"

text \<open>
  \<^verbatim>\<open>parseWindowsRoutes(output)\<close>: the lines that contain \<^verbatim>\<open>0.0.0.0\<close> and
  \<^verbatim>\<open>Gateway\<close> and have three parts or more; \<^verbatim>\<open>parts[3] || 'Unknown'\<close>.
\<close>

definition parseWindowsRoutes :: "string \<Rightarrow> sysroute list" where
  "parseWindowsRoutes output =
     map (\<lambda>line. let parts = split_ws (trim line)
                  in \<lparr>sr_destination = ''0.0.0.0/0'', sr_gateway = at_index parts 2,
                      sr_iface = (if truthy (at_index parts 3) then at_index parts 3
                                  else Some ''Unknown'')\<rparr>)
         (filter (\<lambda>line. str_includes line ''0.0.0.0'' \<and> str_includes line ''Gateway''
                         \<and> 3 \<le> length (split_ws (trim line)))
                 (split_on CHR 0x0A output))"

text \<open>
  What the collaborators answer during one call of \<^verbatim>\<open>discoverRoutes\<close>:
  \<^verbatim>\<open>si.networkInterfaces()\<close>, \<^verbatim>\<open>wifi.init\<close> followed by \<^verbatim>\<open>wifi.scan()\<close>,
  \<^verbatim>\<open>process.platform\<close>, and \<^verbatim>\<open>execAsync(command)\<close> (its \<^verbatim>\<open>stdout\<close>). \<open>Inl\<close> is a
  throw or a rejected promise.
\<close>

record discovery_env =
  networkInterfaces :: "string + netif list"
  wifi_scan :: "string + network list"
  platform :: string
  exec_stdout :: "string \<Rightarrow> string + string"

text \<open>\<^verbatim>\<open>getWifiNetworks()\<close>: the networks with a non-empty \<^verbatim>\<open>ssid\<close>; \<^verbatim>\<open>[]\<close> on a throw.\<close>

definition getWifiNetworks :: "discovery_env \<Rightarrow> network list" where
  "getWifiNetworks env =
     (case wifi_scan env of
        Inl e \<Rightarrow> []
      | Inr networks \<Rightarrow>
          filter (\<lambda>n. case wn_ssid n of None \<Rightarrow> False | Some s \<Rightarrow> s \<noteq> [] \<and> 0 < length s) networks)"

text \<open>\<^verbatim>\<open>getSystemRoutes()\<close>: the parsed output of the platform's command; \<^verbatim>\<open>[]\<close> on a throw.\<close>

definition getSystemRoutes :: "discovery_env \<Rightarrow> sysroute list" where
  "getSystemRoutes env =
     (if platform env = ''win32''
      then (case exec_stdout env ''route print'' of
              Inl e \<Rightarrow> [] | Inr stdout \<Rightarrow> parseWindowsRoutes stdout)
      else (case exec_stdout env ''ip route show'' of
              Inl e \<Rightarrow> [] | Inr stdout \<Rightarrow> parseLinuxRoutes stdout))"

text \<open>The three loops of \<^verbatim>\<open>discoverRoutes\<close>, each pushing one route per entry.\<close>

definition interface_routes :: "netif list \<Rightarrow> route list" where
  "interface_routes ifs =
     map (\<lambda>i. \<lparr>route_id = ni_iface i, name = ni_iface i @ '' ('' @ ni_type i @ '')'',
               type = ni_type i, ip = ni_ip4 i, mac = ni_mac i, speed = ni_speed i,
               ssid = None, signal = None, security = None, destination = None,
               gateway = None, iface = Some (ni_iface i), metrics = None, lastAnalyzed = None\<rparr>)
         (filter (\<lambda>i. ni_operstate i = ''up'' \<and> ni_type i \<noteq> ''loopback'') ifs)"

definition wifi_routes :: "network list \<Rightarrow> route list" where
  "wifi_routes wifiNetworks =
     map (\<lambda>n. \<lparr>route_id = ''wifi-'' @ template (wn_ssid n), name = ''WiFi: '' @ template (wn_ssid n),
               type = ''wifi'', ip = None, mac = None, speed = None,
               ssid = wn_ssid n, signal = wn_signal n, security = wn_security n,
               destination = None, gateway = None, iface = Some ''wlan0'',
               metrics = None, lastAnalyzed = None\<rparr>)
         wifiNetworks"

definition system_routes :: "sysroute list \<Rightarrow> route list" where
  "system_routes systemRoutes =
     map (\<lambda>r. \<lparr>route_id = ''route-'' @ sr_destination r, name = ''Rota: '' @ sr_destination r,
               type = ''route'', ip = None, mac = None, speed = None,
               ssid = None, signal = None, security = None,
               destination = Some (sr_destination r), gateway = sr_gateway r, iface = sr_iface r,
               metrics = None, lastAnalyzed = None\<rparr>)
         systemRoutes"

text \<open>
  The \<^verbatim>\<open>try\<close> block of \<^verbatim>\<open>discoverRoutes\<close>: \<^verbatim>\<open>si.networkInterfaces()\<close> is awaited
  first and a throw there leaves the block; \<^verbatim>\<open>getWifiNetworks\<close> and
  \<^verbatim>\<open>getSystemRoutes\<close> catch their own.
\<close>

definition discoverRoutes_try :: "discovery_env \<Rightarrow> string + route list" where
  "discoverRoutes_try env =
     (case networkInterfaces env of
        Inl e \<Rightarrow> Inl e
      | Inr ifs \<Rightarrow>
          (let wifiNetworks = getWifiNetworks env;
               systemRoutes = getSystemRoutes env
           in Inr (interface_routes ifs @ wifi_routes wifiNetworks @ system_routes systemRoutes)))"

text \<open>\<^verbatim>\<open>discoverRoutes()\<close>: the \<^verbatim>\<open>catch\<close> returns \<^verbatim>\<open>[]\<close>.\<close>

definition discoverRoutes :: "discovery_env \<Rightarrow> route list" where
  "discoverRoutes env = (case discoverRoutes_try env of Inl e \<Rightarrow> [] | Inr routes \<Rightarrow> routes)"

subsection \<open>The metrics cache and the probe of one route\<close>

text \<open>
  The measurements are input and output: \<^verbatim>\<open>measureLatency\<close>, \<^verbatim>\<open>measureThroughput\<close>,
  \<^verbatim>\<open>measureStability\<close>, \<^verbatim>\<open>measurePacketLoss\<close> and \<^verbatim>\<open>measureJitter\<close> ping a target or
  read interface counters. \<^verbatim>\<open>analyzeRoute\<close> is modelled over any five such operations
  on a world \<open>'w\<close> that they read and change (time passes while they run), each of which
  answers a number or throws. \<open>Date_now\<close> reads the clock of the world in milliseconds,
  for \<^verbatim>\<open>Date.now()\<close> and \<^verbatim>\<open>new Date()\<close>.
\<close>

record 'w probe_port =
  Date_now :: "'w \<Rightarrow> int"
  measureLatency :: "route \<Rightarrow> 'w \<Rightarrow> (string + num) \<times> 'w"
  measureThroughput :: "route \<Rightarrow> 'w \<Rightarrow> (string + num) \<times> 'w"
  measureStability :: "route \<Rightarrow> 'w \<Rightarrow> (string + num) \<times> 'w"
  measurePacketLoss :: "route \<Rightarrow> 'w \<Rightarrow> (string + num) \<times> 'w"
  measureJitter :: "route \<Rightarrow> 'w \<Rightarrow> (string + num) \<times> 'w"

text \<open>
  The five methods of the source each wrap their whole body in \<^verbatim>\<open>try\<close> and return a
  fixed value from \<^verbatim>\<open>catch\<close>: 999 for the latency, 0 for the throughput, 0 for the
  stability, 1 for the packet loss, 0 for the jitter. \<open>NetworkProbe body\<close> is the port of
  these methods over the port of their bodies (the pings, the reading of the counters
  and the arithmetic on the answers): it never throws.
\<close>

definition caught ::
  "num \<Rightarrow> (route \<Rightarrow> 'w \<Rightarrow> (string + num) \<times> 'w) \<Rightarrow> route \<Rightarrow> 'w \<Rightarrow> (string + num) \<times> 'w" where
  "caught fallback body r w =
     (case body r w of
        (Inl e, w') \<Rightarrow> (Inr fallback, w')
      | (Inr v, w') \<Rightarrow> (Inr v, w'))"

definition NetworkProbe :: "'w probe_port \<Rightarrow> 'w probe_port" where
  "NetworkProbe body =
     \<lparr>Date_now = Date_now body,
      measureLatency = caught (Some 999) (measureLatency body),
      measureThroughput = caught (Some 0) (measureThroughput body),
      measureStability = caught (Some 0) (measureStability body),
      measurePacketLoss = caught (Some 1) (measurePacketLoss body),
      measureJitter = caught (Some 0) (measureJitter body)\<rparr>"

text \<open>An entry of \<^verbatim>\<open>this.cache\<close>: \<^verbatim>\<open>{ data, timestamp }\<close>, under the key \<^verbatim>\<open>route.id\<close>.\<close>

record cache_entry =
  data :: metrics
  cached_at :: int

type_synonym cache = "string \<rightharpoonup> cache_entry"

definition cacheTimeout :: int where
  "cacheTimeout = 30000"

text \<open>
  The read at the head of \<^verbatim>\<open>analyzeRoute\<close>:
  \<^verbatim>\<open>this.cache.has(route.id)\<close> and \<^verbatim>\<open>Date.now() - cached.timestamp < this.cacheTimeout\<close>.
\<close>

definition cache_get :: "cache \<Rightarrow> string \<Rightarrow> int \<Rightarrow> metrics option" where
  "cache_get c k now =
     (case c k of
        None \<Rightarrow> None
      | Some cached \<Rightarrow> if now - cached_at cached < cacheTimeout then Some (data cached) else None)"

text \<open>The write: \<^verbatim>\<open>this.cache.set(route.id, { data: metrics, timestamp: Date.now() })\<close>.\<close>

definition cache_put :: "cache \<Rightarrow> string \<Rightarrow> metrics \<Rightarrow> int \<Rightarrow> cache" where
  "cache_put c k m now = c(k \<mapsto> \<lparr>data = m, cached_at = now\<rparr>)"

text \<open>
  The object literal in the \<^verbatim>\<open>try\<close> block of \<^verbatim>\<open>analyzeRoute\<close>: the five measurements
  are awaited in the order written, the first throw leaves the block, and the timestamp
  is read last.
\<close>

definition measure_all :: "'w probe_port \<Rightarrow> route \<Rightarrow> 'w \<Rightarrow> (string + metrics) \<times> 'w" where
  "measure_all port r w0 =
     (case measureLatency port r w0 of
        (Inl e, w1) \<Rightarrow> (Inl e, w1)
      | (Inr l, w1) \<Rightarrow>
     (case measureThroughput port r w1 of
        (Inl e, w2) \<Rightarrow> (Inl e, w2)
      | (Inr t, w2) \<Rightarrow>
     (case measureStability port r w2 of
        (Inl e, w3) \<Rightarrow> (Inl e, w3)
      | (Inr s, w3) \<Rightarrow>
     (case measurePacketLoss port r w3 of
        (Inl e, w4) \<Rightarrow> (Inl e, w4)
      | (Inr p, w4) \<Rightarrow>
     (case measureJitter port r w4 of
        (Inl e, w5) \<Rightarrow> (Inl e, w5)
      | (Inr j, w5) \<Rightarrow>
          (Inr \<lparr>error = None, latency = l, throughput = t, stability = s, packetLoss = p,
                jitter = j, timestamp = Some (Date_now port w5)\<rparr>, w5))))))"

text \<open>
  \<^verbatim>\<open>analyzeRoute(route)\<close> on the state of the probe, the cache and the world: a fresh
  entry of the cache is returned as it is; otherwise the route is measured, a sample is
  stored and returned, and a throw becomes \<^verbatim>\<open>{ error: error.message, timestamp }\<close>,
  which is not stored. The function itself never throws. (\<^verbatim>\<open>cacheKey\<close> is computed and
  never used.)
\<close>

definition analyzeRoute :: "'w probe_port \<Rightarrow> route \<Rightarrow> cache \<times> 'w \<Rightarrow> metrics \<times> (cache \<times> 'w)" where
  "analyzeRoute port r st =
     (case st of (c, w) \<Rightarrow>
        (case cache_get c (route_id r) (Date_now port w) of
           Some cached \<Rightarrow> (cached, (c, w))
         | None \<Rightarrow>
             (case measure_all port r w of
                (Inr m, w') \<Rightarrow> (m, (cache_put c (route_id r) m (Date_now port w'), w'))
              | (Inl msg, w') \<Rightarrow> (error_sample msg (Some (Date_now port w')), (c, w')))))"

subsection \<open>The analysis cycle\<close>

text \<open>
  \<^verbatim>\<open>Array.prototype.sort(comparefn)\<close> is the language's: it is stable, and a result of
  \<^verbatim>\<open>comparefn\<close> that is \<^verbatim>\<open>NaN\<close> counts as 0. It is modelled by a stable insertion
  sort: going from the last element to the first, an element is put in front of the
  first element of the sorted rest that it does not have to follow.
\<close>

definition not_after :: "num \<Rightarrow> bool" where
  "not_after v = (case v of None \<Rightarrow> True | Some x \<Rightarrow> x \<le> 0)"

fun insert_by :: "('a \<Rightarrow> 'a \<Rightarrow> num) \<Rightarrow> 'a \<Rightarrow> 'a list \<Rightarrow> 'a list" where
  "insert_by comparefn x [] = [x]"
| "insert_by comparefn x (y # ys) =
     (if not_after (comparefn x y) then x # y # ys else y # insert_by comparefn x ys)"

definition Array_sort :: "('a \<Rightarrow> 'a \<Rightarrow> num) \<Rightarrow> 'a list \<Rightarrow> 'a list" where
  "Array_sort comparefn xs = foldr (insert_by comparefn) xs []"

text \<open>
  The comparison function of \<^verbatim>\<open>analyzeRoutes\<close>:
  \<^verbatim>\<open>if (!a.metrics || !b.metrics) return 0;\<close> then \<^verbatim>\<open>scoreB - scoreA\<close>.
\<close>

definition compare_routes :: "route \<Rightarrow> route \<Rightarrow> num" where
  "compare_routes a b =
     (case metrics a of
        None \<Rightarrow> Some 0
      | Some ma \<Rightarrow>
          (case metrics b of
             None \<Rightarrow> Some 0
           | Some mb \<Rightarrow> js_sub (calculateRouteScore mb) (calculateRouteScore ma)))"

text \<open>
  The \<^verbatim>\<open>for\<close> loop of \<^verbatim>\<open>analyzeRoutes\<close> over a probe that may throw, on the state
  \<open>'s\<close> of the probe; \<open>now\<close> reads the clock for \<^verbatim>\<open>new Date()\<close>. A throw is caught for
  the route at hand: \<^verbatim>\<open>route.metrics = { error: error.message }\<close>.
\<close>

fun probe_loop ::
  "(route \<Rightarrow> 's \<Rightarrow> (string + metrics) \<times> 's) \<Rightarrow> ('s \<Rightarrow> int) \<Rightarrow> route list \<Rightarrow> 's \<Rightarrow> route list \<times> 's"
where
  "probe_loop probe now [] s = ([], s)"
| "probe_loop probe now (r # rs) s =
     (case probe r s of
        (Inr m, s') \<Rightarrow>
          (case probe_loop probe now rs s' of
             (rs', s'') \<Rightarrow> (r\<lparr>metrics := Some m, lastAnalyzed := Some (now s')\<rparr> # rs', s''))
      | (Inl msg, s') \<Rightarrow>
          (case probe_loop probe now rs s' of
             (rs', s'') \<Rightarrow> (r\<lparr>metrics := Some (error_sample msg None)\<rparr> # rs', s'')))"

text \<open>\<^verbatim>\<open>analyzeRoutes()\<close>: the loop, then the sort of \<^verbatim>\<open>this.routes\<close>.\<close>

definition analyzeRoutes ::
  "(route \<Rightarrow> 's \<Rightarrow> (string + metrics) \<times> 's) \<Rightarrow> ('s \<Rightarrow> int) \<Rightarrow> route list \<Rightarrow> 's \<Rightarrow> route list \<times> 's"
where
  "analyzeRoutes probe now rs s =
     (case probe_loop probe now rs s of (rs', s') \<Rightarrow> (Array_sort compare_routes rs', s'))"

text \<open>
  \<^verbatim>\<open>probe.analyzeRoute\<close> as \<^verbatim>\<open>analyzeRoutes\<close> calls it, and the clock of its state.
\<close>

definition probe_analyzeRoute ::
  "'w probe_port \<Rightarrow> route \<Rightarrow> cache \<times> 'w \<Rightarrow> (string + metrics) \<times> (cache \<times> 'w)" where
  "probe_analyzeRoute port r st = (case analyzeRoute port r st of (m, st') \<Rightarrow> (Inr m, st'))"

definition probe_now :: "'w probe_port \<Rightarrow> cache \<times> 'w \<Rightarrow> int" where
  "probe_now port st = Date_now port (snd st)"

text \<open>The score that the sort gives a route; a route without a sample has none.\<close>

definition route_score :: "route \<Rightarrow> num option" where
  "route_score r = map_option calculateRouteScore (metrics r)"

subsection \<open>The state of the application\<close>

text \<open>
  The fields of the one \<^verbatim>\<open>HiraishinVPN\<close> object (\<open>isConnected\<close>, \<open>currentRoute\<close>,
  \<open>analysisInterval\<close>, \<open>routes\<close>; the window is presentation and left out), of the one
  \<^verbatim>\<open>WireGuardController\<close> object (\<open>wg_isConnected\<close> for its \<^verbatim>\<open>isConnected\<close>,
  \<open>wg_currentConfig\<close> for its \<^verbatim>\<open>currentConfig\<close>), and the interval timers of the runtime:
  each armed timer with its handle and its period in milliseconds, and the next handle.
  All timers run the same callback, the analysis cycle.

  \<open>currentRoute\<close> holds the route as it was when it became the active one. (In the source
  it is the object that the catalog holds too, so a later cycle also refreshes its
  metrics; nothing below reads the metrics of the active route.)
\<close>

record system =
  isConnected :: bool
  currentRoute :: "route option"
  analysisInterval :: "nat option"
  routes :: "route list"
  wg_isConnected :: bool
  wg_currentConfig :: "route option"
  timers :: "(nat \<times> nat) list"
  next_timer :: nat

text \<open>The constructors.\<close>

definition initial :: system where
  "initial = \<lparr>isConnected = False, currentRoute = None, analysisInterval = None, routes = [],
     wg_isConnected = False, wg_currentConfig = None, timers = [], next_timer = 0\<rparr>"

text \<open>
  \<^verbatim>\<open>setInterval(callback, ms)\<close> arms a timer and returns its handle. (In the main
  process a handle is an object, which is truthy; here the handles are numbered.)
\<close>

definition setInterval :: "nat \<Rightarrow> system \<Rightarrow> nat \<times> system" where
  "setInterval ms s =
     (next_timer s, s\<lparr>timers := timers s @ [(next_timer s, ms)], next_timer := Suc (next_timer s)\<rparr>)"

text \<open>\<^verbatim>\<open>clearInterval(handle)\<close> disarms the timer of that handle.\<close>

definition clearInterval :: "nat \<Rightarrow> system \<Rightarrow> system" where
  "clearInterval h s = s\<lparr>timers := filter (\<lambda>t. fst t \<noteq> h) (timers s)\<rparr>"

subsection \<open>The tunnel controller\<close>

text \<open>
  What the host answers during one operation of the controller: the directory of the
  configurations, \<^verbatim>\<open>fs.writeFileSync(path, text)\<close> (\<open>Some msg\<close> is a throw),
  \<^verbatim>\<open>execAsync(command)\<close> (\<open>Inl\<close> is a rejection, \<open>Inr\<close> is \<^verbatim>\<open>{ stdout, stderr }\<close>),
  \<^verbatim>\<open>process.platform\<close> and \<^verbatim>\<open>process.env.NODE_ENV\<close>.
\<close>

record tunnel_env =
  configPath :: string
  writeFileSync :: "string \<Rightarrow> string option"
  execAsync :: "string \<Rightarrow> string + (string \<times> string)"
  process_platform :: string
  NODE_ENV :: "string option"

text \<open>
  \<^verbatim>\<open>startWireGuard(configFile)\<close>: a rejection of the command, or an error output
  without the word \<^verbatim>\<open>Warning\<close>, is a throw that the function's own \<^verbatim>\<open>catch\<close>
  receives; there the development mode returns \<^verbatim>\<open>true\<close> and any other mode throws on.
\<close>

definition startWireGuard :: "tunnel_env \<Rightarrow> string \<Rightarrow> string + bool" where
  "startWireGuard env configFile =
     (let command =
            (if process_platform env = ''win32''
             then ''wireguard.exe /installtunnelservice '' @ [CHR 0x22] @ configFile @ [CHR 0x22]
             else ''sudo wg-quick up '' @ [CHR 0x22] @ configFile @ [CHR 0x22]);
          attempt =
            (case execAsync env command of
               Inl e \<Rightarrow> Inl e
             | Inr out \<Rightarrow>
                 if snd out \<noteq> [] \<and> \<not> str_includes (snd out) ''Warning''
                 then Inl (''Erro ao iniciar WireGuard: '' @ snd out)
                 else Inr True)
      in case attempt of
           Inr b \<Rightarrow> Inr b
         | Inl e \<Rightarrow> if NODE_ENV env = Some ''development'' then Inr True else Inl e)"

text \<open>\<^verbatim>\<open>stopAllWireGuard()\<close>: \<^verbatim>\<open>true\<close>, whether the command succeeds or is rejected.\<close>

definition stopAllWireGuard :: "tunnel_env \<Rightarrow> string + bool" where
  "stopAllWireGuard env =
     (case execAsync env (if process_platform env = ''win32''
                          then ''wireguard.exe /uninstalltunnelservice''
                          else ''sudo wg-quick down all'') of
        Inl e \<Rightarrow> Inr True
      | Inr out \<Rightarrow> Inr True)"

text \<open>
  \<^verbatim>\<open>WireGuardController.connect(route)\<close>. \<^verbatim>\<open>generateConfig\<close> does not throw (the key
  generation falls back to a random key) and its text is only written to the file, so it
  is left out. The file is \<^verbatim>\<open>path.join(configPath, route.id + '.conf')\<close>, written here
  without the normalisation of the path.
\<close>

definition wg_connect :: "tunnel_env \<Rightarrow> route \<Rightarrow> system \<Rightarrow> (string + bool) \<times> system" where
  "wg_connect env r s =
     (let configFile = configPath env @ ''/'' @ route_id r @ ''.conf''
      in case writeFileSync env configFile of
           Some e \<Rightarrow> (Inl e, s)
         | None \<Rightarrow>
             (case startWireGuard env configFile of
                Inl e \<Rightarrow> (Inl e, s)
              | Inr b \<Rightarrow> (Inr True, s\<lparr>wg_isConnected := True, wg_currentConfig := Some r\<rparr>)))"

text \<open>\<^verbatim>\<open>WireGuardController.disconnect()\<close>.\<close>

definition wg_disconnect :: "tunnel_env \<Rightarrow> system \<Rightarrow> (string + bool) \<times> system" where
  "wg_disconnect env s =
     (if \<not> wg_isConnected s then (Inr True, s)
      else (case stopAllWireGuard env of
              Inl e \<Rightarrow> (Inl e, s)
            | Inr b \<Rightarrow> (Inr True, s\<lparr>wg_isConnected := False, wg_currentConfig := None\<rparr>)))"

subsection \<open>The operations of the application\<close>

text \<open>
  \<^verbatim>\<open>startNetworkAnalysis()\<close>: no test of the state; the catalog is replaced by the
  routes discovered now and a timer of 5000 ms is armed, whose handle is kept.
\<close>

definition startNetworkAnalysis :: "discovery_env \<Rightarrow> system \<Rightarrow> (string + bool) \<times> system" where
  "startNetworkAnalysis env s =
     (let s1 = s\<lparr>routes := discoverRoutes env\<rparr>
      in case setInterval 5000 s1 of
           (h, s2) \<Rightarrow> (Inr True, s2\<lparr>analysisInterval := Some h\<rparr>))"

text \<open>\<^verbatim>\<open>stopNetworkAnalysis()\<close>.\<close>

definition stopNetworkAnalysis :: "system \<Rightarrow> (string + unit) \<times> system" where
  "stopNetworkAnalysis s =
     (case analysisInterval s of
        Some h \<Rightarrow> (Inr (), (clearInterval h s)\<lparr>analysisInterval := None\<rparr>)
      | None \<Rightarrow> (Inr (), s))"

text \<open>\<^verbatim>\<open>findBestRoute()\<close>: \<^verbatim>\<open>this.routes[0]\<close>, a throw on the empty catalog.\<close>

definition findBestRoute :: "system \<Rightarrow> string + route" where
  "findBestRoute s =
     (case routes s of
        [] \<Rightarrow> Inl (''Nenhuma rota dispon'' @ [CHR 0xED] @ ''vel'')
      | r # rs \<Rightarrow> Inr r)"

text \<open>
  \<^verbatim>\<open>connectToRoute(route)\<close>, for a route object (its one caller passes the truthy
  result of \<^verbatim>\<open>findBestRoute\<close>): no test of the state; after the controller has
  connected, the flag is set and the route recorded; a throw is thrown on.
\<close>

definition connectToRoute :: "tunnel_env \<Rightarrow> route \<Rightarrow> system \<Rightarrow> (string + bool) \<times> system" where
  "connectToRoute env r s =
     (case wg_connect env r s of
        (Inl e, s') \<Rightarrow> (Inl e, s')
      | (Inr b, s') \<Rightarrow> (Inr True, s'\<lparr>isConnected := True, currentRoute := Some r\<rparr>))"

text \<open>\<^verbatim>\<open>disconnect()\<close>.\<close>

definition disconnect :: "tunnel_env \<Rightarrow> system \<Rightarrow> (string + unit) \<times> system" where
  "disconnect env s =
     (case wg_disconnect env s of
        (Inl e, s') \<Rightarrow> (Inl e, s')
      | (Inr b, s') \<Rightarrow> (Inr (), s'\<lparr>isConnected := False, currentRoute := None\<rparr>))"

text \<open>
  The replies of the handlers that \<^verbatim>\<open>setupIPC\<close> registers:
  \<^verbatim>\<open>{ success: true, message }\<close>, \<^verbatim>\<open>{ success: true, route }\<close> and
  \<^verbatim>\<open>{ success: false, message }\<close>.
\<close>

datatype reply = Success_message string | Success_route route | Failure string

definition handle_start_analysis :: "discovery_env \<Rightarrow> system \<Rightarrow> reply \<times> system" where
  "handle_start_analysis env s =
     (case startNetworkAnalysis env s of
        (Inr b, s') \<Rightarrow> (Success_message (''An'' @ [CHR 0xE1] @ ''lise iniciada com sucesso''), s')
      | (Inl e, s') \<Rightarrow> (Failure e, s'))"

definition handle_stop_analysis :: "system \<Rightarrow> reply \<times> system" where
  "handle_stop_analysis s =
     (case stopNetworkAnalysis s of
        (Inr u, s') \<Rightarrow> (Success_message (''An'' @ [CHR 0xE1] @ ''lise parada com sucesso''), s')
      | (Inl e, s') \<Rightarrow> (Failure e, s'))"

text \<open>
  The handler of \<^verbatim>\<open>connect-best-route\<close>. The result of \<^verbatim>\<open>findBestRoute\<close> is a route
  object, so the test \<^verbatim>\<open>if (bestRoute)\<close> succeeds whenever it is reached.
\<close>

definition handle_connect_best_route :: "tunnel_env \<Rightarrow> system \<Rightarrow> reply \<times> system" where
  "handle_connect_best_route env s =
     (case findBestRoute s of
        Inl e \<Rightarrow> (Failure e, s)
      | Inr bestRoute \<Rightarrow>
          (case connectToRoute env bestRoute s of
             (Inr b, s') \<Rightarrow> (Success_route bestRoute, s')
           | (Inl e, s') \<Rightarrow> (Failure e, s')))"

definition handle_disconnect :: "tunnel_env \<Rightarrow> system \<Rightarrow> reply \<times> system" where
  "handle_disconnect env s =
     (case disconnect env s of
        (Inr u, s') \<Rightarrow> (Success_message ''Desconectado com sucesso'', s')
      | (Inl e, s') \<Rightarrow> (Failure e, s'))"

text \<open>
  The operations that reach the state: the four handlers, with what the host answers
  while they run. \<open>step\<close> runs one, \<open>run\<close> a sequence from a state.
\<close>

datatype operation =
    Start_analysis discovery_env
  | Stop_analysis
  | Connect_best_route tunnel_env
  | Disconnect tunnel_env

fun step :: "operation \<Rightarrow> system \<Rightarrow> reply \<times> system" where
  "step (Start_analysis env) s = handle_start_analysis env s"
| "step Stop_analysis s = handle_stop_analysis s"
| "step (Connect_best_route env) s = handle_connect_best_route env s"
| "step (Disconnect env) s = handle_disconnect env s"

fun run :: "operation list \<Rightarrow> system \<Rightarrow> system" where
  "run [] s = s"
| "run (op # ops) s = run ops (snd (step op s))"

definition failed :: "reply \<Rightarrow> bool" where
  "failed r = (case r of Failure e \<Rightarrow> True | Success_message m \<Rightarrow> False | Success_route x \<Rightarrow> False)"

subsection \<open>Properties of states and catalogs\<close>

text \<open>The connection flag and the active route agree.\<close>

definition consistent :: "system \<Rightarrow> bool" where
  "consistent s = (isConnected s \<longleftrightarrow> currentRoute s \<noteq> None)"

text \<open>A route has a sample whose score is a number; \<open>a\<close> may stand in front of \<open>b\<close>.\<close>

definition scored :: "route \<Rightarrow> bool" where
  "scored r = (case route_score r of Some (Some v) \<Rightarrow> True | Some None \<Rightarrow> False | None \<Rightarrow> False)"

definition ranks_before :: "route \<Rightarrow> route \<Rightarrow> bool" where
  "ranks_before a b =
     (case route_score a of
        Some (Some x) \<Rightarrow>
          (case route_score b of Some (Some y) \<Rightarrow> y \<le> x | Some None \<Rightarrow> False | None \<Rightarrow> False)
      | Some None \<Rightarrow> False
      | None \<Rightarrow> False)"

text \<open>The error message of the sample of a route, if there is one.\<close>

definition route_error :: "route \<Rightarrow> string option" where
  "route_error r = (case metrics r of None \<Rightarrow> None | Some m \<Rightarrow> error m)"

definition route_latency :: "route \<Rightarrow> num" where
  "route_latency r = (case metrics r of None \<Rightarrow> None | Some m \<Rightarrow> latency m)"

subsection \<open>Concrete inputs\<close>

text \<open>A wired route named \<open>k\<close>, and the sample measured by the port below at time \<open>t\<close>.\<close>

definition example_route :: "string \<Rightarrow> route" where
  "example_route k = \<lparr>route_id = k, name = k @ '' (wired)'', type = ''wired'', ip = None,
     mac = None, speed = Some 1000, ssid = None, signal = None, security = None,
     destination = None, gateway = None, iface = Some k, metrics = None, lastAnalyzed = None\<rparr>"

definition measured :: "int \<Rightarrow> metrics" where
  "measured t = \<lparr>error = None, latency = Some 10, throughput = Some 500, stability = Some 0.95,
     packetLoss = Some 0, jitter = Some 0, timestamp = Some t\<rparr>"

text \<open>
  A port over a world that is the clock: each measurement takes a second; the latency
  measurement of the route \<open>bad\<close> has the outcome \<open>answer\<close> (a throw, or a number that may
  be \<^verbatim>\<open>NaN\<close>, as \<^verbatim>\<open>parseFloat\<close> of a time that is not numeric is).
\<close>

definition example_port :: "string \<Rightarrow> string + num \<Rightarrow> int probe_port" where
  "example_port bad answer =
     \<lparr>Date_now = (\<lambda>w. w),
      measureLatency = (\<lambda>r w. (if route_id r = bad then answer else Inr (Some 10), w + 1000)),
      measureThroughput = (\<lambda>r w. (Inr (Some 500), w + 1000)),
      measureStability = (\<lambda>r w. (Inr (Some 0.95), w + 1000)),
      measurePacketLoss = (\<lambda>r w. (Inr (Some 0), w + 1000)),
      measureJitter = (\<lambda>r w. (Inr (Some 0), w + 1000))\<rparr>"

text \<open>A port whose latency depends on the gateway of the route.\<close>

definition by_gateway :: "int probe_port" where
  "by_gateway =
     \<lparr>Date_now = (\<lambda>w. w),
      measureLatency =
        (\<lambda>r w. (Inr (if gateway r = Some ''192.168.1.1'' then Some 10 else Some 200), w + 1000)),
      measureThroughput = (\<lambda>r w. (Inr (Some 500), w + 1000)),
      measureStability = (\<lambda>r w. (Inr (Some 0.95), w + 1000)),
      measurePacketLoss = (\<lambda>r w. (Inr (Some 0), w + 1000)),
      measureJitter = (\<lambda>r w. (Inr (Some 0), w + 1000))\<rparr>"

text \<open>
  A probe that throws an error with the message \<open>msg\<close> for the route \<open>bad\<close>, on a state
  that is the clock.
\<close>

definition throwing_probe :: "string \<Rightarrow> string \<Rightarrow> route \<Rightarrow> int \<Rightarrow> (string + metrics) \<times> int" where
  "throwing_probe bad msg r t =
     (if route_id r = bad then (Inl msg, t + 3000)
      else (Inr (measured (t + 3000)), t + 3000))"

definition clock :: "int \<Rightarrow> int" where
  "clock t = t"

text \<open>Hosts on which the tunnel comes up, and on which the command is rejected.\<close>

definition host_ok :: tunnel_env where
  "host_ok = \<lparr>configPath = ''/home/user/.hiraishin/configs'', writeFileSync = (\<lambda>p. None),
     execAsync = (\<lambda>c. Inr ([], [])), process_platform = ''linux'', NODE_ENV = None\<rparr>"

definition host_failing :: tunnel_env where
  "host_failing = \<lparr>configPath = ''/home/user/.hiraishin/configs'', writeFileSync = (\<lambda>p. None),
     execAsync = (\<lambda>c. Inl ''wg-quick: command not found''), process_platform = ''linux'',
     NODE_ENV = None\<rparr>"

text \<open>A state with a tunnel over the route \<open>r\<close> and the analysis running.\<close>

definition connected_to :: "route \<Rightarrow> system" where
  "connected_to r = \<lparr>isConnected = True, currentRoute = Some r, analysisInterval = Some 0,
     routes = [example_route ''B'', r], wg_isConnected = True, wg_currentConfig = Some r,
     timers = [(0, 5000)], next_timer = 1\<rparr>"

text \<open>Answers of the collectors.\<close>

definition home_network :: network where
  "home_network = \<lparr>wn_ssid = Some ''home'', wn_signal = Some (-50), wn_security = Some ''WPA2''\<rparr>"

definition eth0 :: netif where
  "eth0 = \<lparr>ni_iface = ''eth0'', ni_type = ''wired'', ni_operstate = ''up'',
     ni_ip4 = Some ''192.168.1.20'', ni_mac = Some ''aa:bb:cc:dd:ee:ff'', ni_speed = Some 1000\<rparr>"

definition no_network :: discovery_env where
  "no_network = \<lparr>networkInterfaces = Inl ''EPERM'', wifi_scan = Inl ''no adapter'',
     platform = ''linux'', exec_stdout = (\<lambda>c. Inl ''ENOENT'')\<rparr>"

definition interfaces_fail :: discovery_env where
  "interfaces_fail = \<lparr>networkInterfaces = Inl ''EPERM'', wifi_scan = Inr [home_network],
     platform = ''linux'', exec_stdout = (\<lambda>c. Inr ''default via 192.168.1.1 dev eth0'')\<rparr>"

definition wifi_fails :: discovery_env where
  "wifi_fails = \<lparr>networkInterfaces = Inr [eth0], wifi_scan = Inl ''no adapter'',
     platform = ''linux'', exec_stdout = (\<lambda>c. Inr ''default via 192.168.1.1 dev eth0'')\<rparr>"

definition wired_only :: discovery_env where
  "wired_only = \<lparr>networkInterfaces = Inr [eth0], wifi_scan = Inr [], platform = ''linux'',
     exec_stdout = (\<lambda>c. Inl ''ENOENT'')\<rparr>"

text \<open>A host with two default routes: \<^verbatim>\<open>ip route show\<close> prints two lines.\<close>

definition two_defaults :: discovery_env where
  "two_defaults = \<lparr>networkInterfaces = Inr [eth0], wifi_scan = Inr [home_network],
     platform = ''linux'',
     exec_stdout = (\<lambda>c. Inr (''default via 192.168.1.1 dev eth0'' @ [CHR 0x0A]
                              @ ''default via 10.0.0.1 dev wlan0'' @ [CHR 0x0A]))\<rparr>"

section \<open>Theorems\<close>

lemmas num_ops = lift2_def js_add_def js_sub_def js_mul_def js_div_def Math_max_def Math_min_def

lemmas cycle_defs = analyzeRoutes_def probe_analyzeRoute_def analyzeRoute_def cache_get_def
  cache_put_def cacheTimeout_def measure_all_def Array_sort_def compare_routes_def
  calculateRouteScore_def truthy_def num_ops not_after_def error_sample_def probe_now_def
  route_score_def route_error_def route_latency_def

lemmas lifecycle_defs = connectToRoute_def wg_connect_def startWireGuard_def disconnect_def
  wg_disconnect_def stopAllWireGuard_def handle_connect_best_route_def handle_disconnect_def
  handle_start_analysis_def handle_stop_analysis_def findBestRoute_def startNetworkAnalysis_def
  stopNetworkAnalysis_def setInterval_def clearInterval_def

lemmas discovery_defs = discoverRoutes_def discoverRoutes_try_def getWifiNetworks_def
  getSystemRoutes_def parseLinuxRoutes_def parseWindowsRoutes_def interface_routes_def
  wifi_routes_def system_routes_def trim_def is_space_def at_index_def template_def

subsection \<open>The score\<close>

text \<open>
  The claim C1 as it is written fails: the function checks neither that the
  measurements are numbers nor that they lie in the ranges of the data model. A sample
  without an error that holds the latency -50, the throughput 1000 and the stability 0.95
  scores 119, and one whose latency is \<^verbatim>\<open>NaN\<close> scores \<^verbatim>\<open>NaN\<close>.
\<close>

theorem calculateRouteScore_unchecked_counterexample:
  "error (sample (-50) 1000 0.95) = None
   \<and> calculateRouteScore (sample (-50) 1000 0.95) = Some 119
   \<and> error ((sample 10 500 0.95)\<lparr>latency := None\<rparr>) = None
   \<and> calculateRouteScore ((sample 10 500 0.95)\<lparr>latency := None\<rparr>) = None"
  by (simp add: calculateRouteScore_def sample_def truthy_def num_ops)

text \<open>
  C1, as amended. For a sample without an error whose latency, throughput and stability
  are numbers, the score is, in exact arithmetic (the doubles of the code round each
  operation),
  \<open>0.4 * max 0 (100 - latency) + 0.4 * min 100 (throughput / 10) + 0.2 * (stability * 100)\<close>;
  when the measurements are in the ranges of the data model (latency and throughput not
  negative, stability between 0 and 1) it lies between 0 and 100. The sample with latency
  10, throughput 500 and stability 0.95 scores 75, the one with latency 200, throughput 5
  and stability 0.2 scores 4.2.
\<close>

theorem calculateRouteScore_formula:
  assumes "error m = None"
    and "latency m = Some l" and "throughput m = Some t" and "stability m = Some s"
  shows "calculateRouteScore m
           = Some (0.4 * max 0 (100 - l) + 0.4 * min 100 (t / 10) + 0.2 * (s * 100))
       \<and> (0 \<le> l \<and> 0 \<le> t \<and> 0 \<le> s \<and> s \<le> 1 \<longrightarrow>
            (\<exists>v. calculateRouteScore m = Some v \<and> 0 \<le> v \<and> v \<le> 100))
       \<and> calculateRouteScore (sample 10 500 0.95) = Some 75
       \<and> calculateRouteScore (sample 200 5 0.2) = Some 4.2"
proof -
  let ?v = "0.4 * max 0 (100 - l) + 0.4 * min 100 (t / 10) + 0.2 * (s * 100)"
  have eq: "calculateRouteScore m = Some ?v"
    using assms by (simp add: calculateRouteScore_def truthy_def num_ops)
  have rng: "0 \<le> ?v \<and> ?v \<le> 100" if r: "0 \<le> l \<and> 0 \<le> t \<and> 0 \<le> s \<and> s \<le> 1"
  proof -
    have a: "0 \<le> max 0 (100 - l)" "max 0 (100 - l) \<le> 100" using r by auto
    have b: "0 \<le> min 100 (t / 10)" "min 100 (t / 10) \<le> 100" using r by auto
    have c: "0 \<le> s * 100" "s * 100 \<le> 100" using r by auto
    have w: "0 \<le> 0.4 * x + 0.4 * y + 0.2 * z \<and> 0.4 * x + 0.4 * y + 0.2 * z \<le> 100"
      if "0 \<le> x" "x \<le> 100" "0 \<le> y" "y \<le> 100" "0 \<le> z" "z \<le> 100" for x y z :: real
      using that by simp
    show ?thesis using w [OF a b c] .
  qed
  have A: "calculateRouteScore (sample 10 500 0.95) = Some 75"
    by (simp add: calculateRouteScore_def sample_def truthy_def num_ops)
  have B: "calculateRouteScore (sample 200 5 0.2) = Some 4.2"
    by (simp add: calculateRouteScore_def sample_def truthy_def num_ops)
  from eq rng A B show ?thesis by blast
qed

text \<open>The theorem at the sample with latency 30, throughput 200 and stability 0.5.\<close>

theorem calculateRouteScore_formula_witness:
  "error (sample 30 200 0.5) = None
   \<and> calculateRouteScore (sample 30 200 0.5) = Some 46
   \<and> (\<exists>v. calculateRouteScore (sample 30 200 0.5) = Some v \<and> 0 \<le> v \<and> v \<le> 100)"
proof -
  have h: "error (sample 30 200 0.5) = None" "latency (sample 30 200 0.5) = Some 30"
    "throughput (sample 30 200 0.5) = Some 200" "stability (sample 30 200 0.5) = Some 0.5"
    by (simp_all add: sample_def)
  from calculateRouteScore_formula [OF h] h(1) show ?thesis by simp
qed

text \<open>A sample with a non-empty error message scores 0, whatever else it holds.\<close>

lemma calculateRouteScore_error:
  "error m = Some msg \<Longrightarrow> msg \<noteq> [] \<Longrightarrow> calculateRouteScore m = Some 0"
  by (simp add: calculateRouteScore_def truthy_def)

text \<open>
  C7. The claim is that a sample with an error scores 0 for every message, the empty one
  included. The test \<^verbatim>\<open>if (metrics.error)\<close> is a test of truthiness, and the empty string
  is falsy: the sample \<^verbatim>\<open>{ error: '' }\<close> scores \<^verbatim>\<open>NaN\<close>, and a sample that holds the empty
  message beside measurements gets the full credit of the measurements (75 here).
\<close>

theorem calculateRouteScore_empty_message:
  "calculateRouteScore (error_sample [] ts) = None
   \<and> calculateRouteScore ((sample 10 500 0.95)\<lparr>error := Some []\<rparr>) = Some 75"
  by (simp add: calculateRouteScore_def error_sample_def sample_def truthy_def num_ops)

subsection \<open>The sort of the catalog\<close>

lemma insert_by_set: "set (insert_by c x ys) = insert x (set ys)"
  by (induction ys) auto

lemma insert_by_mset: "mset (insert_by c x ys) = add_mset x (mset ys)"
  by (induction ys) auto

lemma Array_sort_mset: "mset (Array_sort c xs) = mset xs"
  by (induction xs) (simp_all add: Array_sort_def insert_by_mset)

lemma not_after_compare:
  "route_score a = Some (Some x) \<Longrightarrow> route_score b = Some (Some y) \<Longrightarrow>
   not_after (compare_routes a b) = (y \<le> x)"
  by (auto simp: route_score_def compare_routes_def not_after_def num_ops split: option.splits)

lemma insert_by_sorted:
  assumes "sorted_wrt ranks_before ys" "\<forall>y \<in> set ys. scored y" "scored x"
  shows "sorted_wrt ranks_before (insert_by compare_routes x ys)"
  using assms
proof (induction ys)
  case Nil
  then show ?case by simp
next
  case (Cons y ys)
  from Cons.prems obtain vx vy
    where vx: "route_score x = Some (Some vx)" and vy: "route_score y = Some (Some vy)"
    by (auto simp: scored_def split: option.splits)
  show ?case
  proof (cases "not_after (compare_routes x y)")
    case True
    with not_after_compare [OF vx vy] have le: "vy \<le> vx" by simp
    have xy: "ranks_before x y" using vx vy le by (auto simp: ranks_before_def)
    have "\<forall>z \<in> set ys. ranks_before x z"
    proof
      fix z assume z: "z \<in> set ys"
      with Cons.prems have "ranks_before y z" by simp
      with vx vy le show "ranks_before x z"
        by (auto simp: ranks_before_def split: option.splits)
    qed
    with xy True Cons.prems show ?thesis by simp
  next
    case False
    with not_after_compare [OF vx vy] have lt: "vx < vy" by simp
    have yx: "ranks_before y x" using vx vy lt by (auto simp: ranks_before_def)
    have ih: "sorted_wrt ranks_before (insert_by compare_routes x ys)"
      using Cons by simp
    have "\<forall>z \<in> set (insert_by compare_routes x ys). ranks_before y z"
      using yx Cons.prems by (simp add: insert_by_set)
    with ih False show ?thesis by simp
  qed
qed

lemma Array_sort_sorted:
  "\<forall>r \<in> set rs. scored r \<Longrightarrow> sorted_wrt ranks_before (Array_sort compare_routes rs)"
proof (induction rs)
  case Nil
  then show ?case by (simp add: Array_sort_def)
next
  case (Cons r rs)
  have s: "set (foldr (insert_by compare_routes) rs []) = set rs"
    using Array_sort_mset [of compare_routes rs] by (metis Array_sort_def set_mset_mset)
  from Cons have "sorted_wrt ranks_before (foldr (insert_by compare_routes) rs [])"
    by (simp add: Array_sort_def)
  with Cons.prems s show ?case
    by (simp add: Array_sort_def insert_by_sorted)
qed

lemma probe_loop_scored:
  assumes "\<And>r s. case probe r s of
                    (Inr m, s') \<Rightarrow> (\<exists>v. calculateRouteScore m = Some v)
                  | (Inl msg, s') \<Rightarrow> msg \<noteq> []"
  shows "\<forall>r \<in> set (fst (probe_loop probe now rs s)). scored r"
proof (induction rs arbitrary: s)
  case Nil
  then show ?case by simp
next
  case (Cons r rs)
  obtain out s' where p: "probe r s = (out, s')" by (cases "probe r s")
  obtain rs' s'' where l: "probe_loop probe now rs s' = (rs', s'')"
    by (cases "probe_loop probe now rs s'")
  from Cons [of s'] l have ih: "\<forall>x \<in> set rs'. scored x" by simp
  show ?case
  proof (cases out)
    case (Inl msg)
    with assms [of r s] p have "msg \<noteq> []" by simp
    then have "scored (r\<lparr>metrics := Some (error_sample msg None)\<rparr>)"
      by (simp add: scored_def route_score_def calculateRouteScore_def truthy_def error_sample_def)
    with p l ih Inl show ?thesis by simp
  next
    case (Inr m)
    with assms [of r s] p obtain v where "calculateRouteScore m = Some v" by auto
    then have "scored (r\<lparr>metrics := Some m, lastAnalyzed := Some (now s')\<rparr>)"
      by (simp add: scored_def route_score_def)
    with p l ih Inr show ?thesis by simp
  qed
qed

text \<open>
  When every sample of the cycle has a number for its score and every caught message is
  not empty, the catalog is in the order of non-increasing score after the cycle.
\<close>

lemma analyzeRoutes_sorted:
  assumes "\<And>r s. case probe r s of
                    (Inr m, s') \<Rightarrow> (\<exists>v. calculateRouteScore m = Some v)
                  | (Inl msg, s') \<Rightarrow> msg \<noteq> []"
  shows "sorted_wrt ranks_before (fst (analyzeRoutes probe now rs s))"
proof -
  obtain rs' s' where l: "probe_loop probe now rs s = (rs', s')"
    by (cases "probe_loop probe now rs s")
  from probe_loop_scored [of probe now rs s] assms l have "\<forall>r \<in> set rs'. scored r" by simp
  then show ?thesis using l by (simp add: analyzeRoutes_def Array_sort_sorted)
qed

text \<open>
  C2. The claim is that after every cycle the catalog is in the order of non-increasing
  score, a route with an error sample counting as 0 and the highest valid score first.
  It fails where a score is \<^verbatim>\<open>NaN\<close>: every comparison with it is \<^verbatim>\<open>NaN\<close>, which the sort
  takes for 0. In the cycle over the routes A and B in which the probe of A throws an
  error with the empty message, A gets the sample \<^verbatim>\<open>{ error: '' }\<close>, whose score is
  \<^verbatim>\<open>NaN\<close>, and the catalog stays A, B although B scores 75. So it does when the latency
  of A is measured as \<^verbatim>\<open>NaN\<close>.
\<close>

theorem analyzeRoutes_empty_message_unsorted:
  "map route_id
     (fst (analyzeRoutes (throwing_probe ''A'' []) clock [example_route ''A'', example_route ''B''] 0))
     = [''A'', ''B'']
   \<and> map route_error
     (fst (analyzeRoutes (throwing_probe ''A'' []) clock [example_route ''A'', example_route ''B''] 0))
     = [Some [], None]
   \<and> map route_score
     (fst (analyzeRoutes (throwing_probe ''A'' []) clock [example_route ''A'', example_route ''B''] 0))
     = [Some None, Some (Some 75)]
   \<and> map route_id
     (fst (analyzeRoutes (probe_analyzeRoute (NetworkProbe (example_port ''A'' (Inr None))))
             (probe_now (NetworkProbe (example_port ''A'' (Inr None))))
             [example_route ''A'', example_route ''B''] (Map.empty, 0)))
     = [''A'', ''B'']
   \<and> map route_score
     (fst (analyzeRoutes (probe_analyzeRoute (NetworkProbe (example_port ''A'' (Inr None))))
             (probe_now (NetworkProbe (example_port ''A'' (Inr None))))
             [example_route ''A'', example_route ''B''] (Map.empty, 0)))
     = [Some None, Some (Some 75)]"
  by (simp add: cycle_defs example_port_def example_route_def throwing_probe_def measured_def
        clock_def NetworkProbe_def caught_def)

subsection \<open>The cache\<close>

lemma cache_get_put:
  "now - stored < cacheTimeout \<Longrightarrow> cache_get (cache_put c k m stored) k now = Some m"
  by (simp add: cache_get_def cache_put_def)

lemma cache_get_expired:
  "cacheTimeout \<le> now - stored \<Longrightarrow> cache_get (cache_put c k m stored) k now = None"
  by (simp add: cache_get_def cache_put_def)

lemma cache_get_miss:
  "cache_get c k now = None
   \<longleftrightarrow> (c k = None \<or> (\<exists>e. c k = Some e \<and> cacheTimeout \<le> now - cached_at e))"
  by (auto simp: cache_get_def split: option.splits)

lemma cache_put_replaces:
  "cache_put (cache_put c k ma ta) k mb tb = cache_put c k mb tb"
  by (simp add: cache_put_def)

lemma analyzeRoute_hit:
  "cache_get c (route_id r) (Date_now port w) = Some m \<Longrightarrow>
   analyzeRoute port r (c, w) = (m, (c, w))"
  by (simp add: analyzeRoute_def)

lemma analyzeRoute_miss:
  "cache_get c (route_id r) (Date_now port w) = None \<Longrightarrow>
   analyzeRoute port r (c, w) =
     (case measure_all port r w of
        (Inr m, w') \<Rightarrow> (m, (cache_put c (route_id r) m (Date_now port w'), w'))
      | (Inl msg, w') \<Rightarrow> (error_sample msg (Some (Date_now port w')), (c, w')))"
  by (simp add: analyzeRoute_def)

lemma cache_put_other:
  "other \<noteq> k \<Longrightarrow> cache_get (cache_put c other mo tmo) k now = cache_get c k now"
  by (simp add: cache_get_def cache_put_def)

text \<open>
  C3. After the write of a sample under a key at the time \<open>stored\<close>, a read of the key
  at a time \<open>now\<close> with \<open>now - stored < 30000\<close> gives that sample, and with
  \<open>30000 \<le> now - stored\<close> it is a miss; a read is a miss exactly when the key has no entry
  or its entry is 30000 ms old or older; a second write under the key replaces the first,
  and a write under another key changes no read of this key. On a hit \<^verbatim>\<open>analyzeRoute\<close>
  returns the stored sample and measures nothing (the cache and the world are
  unchanged); on a miss it measures the route again.
\<close>

theorem cache_round_trip:
  "(now - stored < 30000 \<longrightarrow> cache_get (cache_put c k m stored) k now = Some m)
   \<and> (30000 \<le> now - stored \<longrightarrow> cache_get (cache_put c k m stored) k now = None)
   \<and> (cache_get c k now = None
        \<longleftrightarrow> (c k = None \<or> (\<exists>e. c k = Some e \<and> 30000 \<le> now - cached_at e)))
   \<and> cache_put (cache_put c k ma ta) k mb tb = cache_put c k mb tb
   \<and> (other \<noteq> k \<longrightarrow> cache_get (cache_put c other mo tmo) k now = cache_get c k now)
   \<and> (cache_get c (route_id r) (Date_now port w) = Some m \<longrightarrow>
        analyzeRoute port r (c, w) = (m, (c, w)))
   \<and> (cache_get c (route_id r) (Date_now port w) = None \<longrightarrow>
        analyzeRoute port r (c, w) =
          (case measure_all port r w of
             (Inr m', w') \<Rightarrow> (m', (cache_put c (route_id r) m' (Date_now port w'), w'))
           | (Inl msg, w') \<Rightarrow> (error_sample msg (Some (Date_now port w')), (c, w'))))"
  using cache_get_put [of now stored c k m] cache_get_expired [of now stored c k m]
    cache_get_miss [of c k now] cache_put_replaces [of c k ma ta mb tb]
    cache_put_other [of other k c mo tmo now]
    analyzeRoute_hit [of c r port w m] analyzeRoute_miss [of c r port w]
  by (simp add: cacheTimeout_def)

text \<open>
  The theorem on the routes A and B: A is measured from the empty cache at time 0 and
  its sample stored at time 5000; then B is measured and its sample stored at time
  10000; a call for A at time 10001 and one at time 34999 return the sample of A, the
  cache unchanged; a call for A at time 35000 measures again and replaces the entry of
  A.
\<close>

theorem cache_round_trip_witness:
  "analyzeRoute (example_port ''Z'' (Inr None)) (example_route ''A'') (Map.empty, 0)
     = (measured 5000, (cache_put Map.empty ''A'' (measured 5000) 5000, 5000))
   \<and> analyzeRoute (example_port ''Z'' (Inr None)) (example_route ''B'')
        (cache_put Map.empty ''A'' (measured 5000) 5000, 5000)
     = (measured 10000,
        (cache_put (cache_put Map.empty ''A'' (measured 5000) 5000) ''B'' (measured 10000) 10000,
         10000))
   \<and> analyzeRoute (example_port ''Z'' (Inr None)) (example_route ''A'')
        (cache_put (cache_put Map.empty ''A'' (measured 5000) 5000) ''B'' (measured 10000) 10000,
         10001)
     = (measured 5000,
        (cache_put (cache_put Map.empty ''A'' (measured 5000) 5000) ''B'' (measured 10000) 10000,
         10001))
   \<and> analyzeRoute (example_port ''Z'' (Inr None)) (example_route ''A'')
        (cache_put (cache_put Map.empty ''A'' (measured 5000) 5000) ''B'' (measured 10000) 10000,
         34999)
     = (measured 5000,
        (cache_put (cache_put Map.empty ''A'' (measured 5000) 5000) ''B'' (measured 10000) 10000,
         34999))
   \<and> analyzeRoute (example_port ''Z'' (Inr None)) (example_route ''A'')
        (cache_put (cache_put Map.empty ''A'' (measured 5000) 5000) ''B'' (measured 10000) 10000,
         35000)
     = (measured 40000,
        (cache_put
           (cache_put (cache_put Map.empty ''A'' (measured 5000) 5000) ''B'' (measured 10000) 10000)
           ''A'' (measured 40000) 40000,
         40000))
   \<and> cache_put (cache_put Map.empty ''A'' (measured 5000) 5000) ''A'' (measured 40000) 40000
     = cache_put Map.empty ''A'' (measured 40000) 40000"
proof -
  let ?port = "example_port ''Z'' (Inr None)"
  let ?a = "example_route ''A''"
  let ?b = "example_route ''B''"
  let ?ca = "cache_put Map.empty ''A'' (measured 5000) 5000"
  let ?cab = "cache_put ?ca ''B'' (measured 10000) 10000"
  have ka: "route_id ?a = ''A''" and kb: "route_id ?b = ''B''"
    by (simp_all add: example_route_def)
  have d: "Date_now ?port w = w" for w by (simp add: example_port_def)
  have msa: "measure_all ?port ?a w = (Inr (measured (w + 5000)), w + 5000)" for w
    by (simp add: measure_all_def example_port_def example_route_def measured_def)
  have msb: "measure_all ?port ?b w = (Inr (measured (w + 5000)), w + 5000)" for w
    by (simp add: measure_all_def example_port_def example_route_def measured_def)
  have ne: "''B'' \<noteq> ''A''" by simp
  txt \<open>The first measurement of A, from the empty cache.\<close>
  note A = cache_round_trip [where c = "Map.empty" and k = "''A''" and now = 0 and r = ?a
      and port = ?port and w = 0]
  have ea: "cache_get Map.empty ''A'' 0 = None"
    using A [THEN conjunct2, THEN conjunct2, THEN conjunct1] by simp
  have 1: "analyzeRoute ?port ?a (Map.empty, 0) = (measured 5000, (?ca, 5000))"
    using A [THEN conjunct2, THEN conjunct2, THEN conjunct2, THEN conjunct2, THEN conjunct2,
             THEN conjunct2] ea
    by (simp add: ka d msa)
  txt \<open>The measurement of B: the key B has no entry beside that of A.\<close>
  note B = cache_round_trip [where c = "Map.empty" and k = "''B''" and now = 5000
      and other = "''A''" and mo = "measured 5000" and tmo = 5000]
  note B' = cache_round_trip [where c = ?ca and r = ?b and port = ?port and w = 5000]
  have eb0: "cache_get Map.empty ''B'' 5000 = None"
    using B [THEN conjunct2, THEN conjunct2, THEN conjunct1] by simp
  have eb: "cache_get ?ca ''B'' 5000 = None"
    using B [THEN conjunct2, THEN conjunct2, THEN conjunct2, THEN conjunct2, THEN conjunct1] eb0
    by simp
  have 2: "analyzeRoute ?port ?b (?ca, 5000) = (measured 10000, (?cab, 10000))"
    using B' [THEN conjunct2, THEN conjunct2, THEN conjunct2, THEN conjunct2, THEN conjunct2,
              THEN conjunct2] eb
    by (simp add: kb d msb)
  txt \<open>The reads of A after the write of B.\<close>
  have frame: "cache_get ?cab ''A'' now = cache_get ?ca ''A'' now" for now
    using cache_round_trip [where c = ?ca and k = "''A''" and now = now and other = "''B''"
        and mo = "measured 10000" and tmo = 10000,
        THEN conjunct2, THEN conjunct2, THEN conjunct2, THEN conjunct2, THEN conjunct1] ne
    by simp
  note C = cache_round_trip [where c = "Map.empty" and k = "''A''" and m = "measured 5000"
      and stored = 5000 and now = 10001]
  note D = cache_round_trip [where c = "Map.empty" and k = "''A''" and m = "measured 5000"
      and stored = 5000 and now = 34999]
  note E = cache_round_trip [where c = "Map.empty" and k = "''A''" and m = "measured 5000"
      and stored = 5000 and now = 35000 and ma = "measured 5000" and ta = 5000
      and mb = "measured 40000" and tb = 40000]
  have hit1: "cache_get ?cab ''A'' 10001 = Some (measured 5000)"
    using C [THEN conjunct1] by (simp add: frame)
  have hit2: "cache_get ?cab ''A'' 34999 = Some (measured 5000)"
    using D [THEN conjunct1] by (simp add: frame)
  have miss: "cache_get ?cab ''A'' 35000 = None"
    using E [THEN conjunct2, THEN conjunct1] by (simp add: frame)
  have 3: "analyzeRoute ?port ?a (?cab, 10001) = (measured 5000, (?cab, 10001))"
    using cache_round_trip [where c = ?cab and r = ?a and port = ?port and w = 10001
        and m = "measured 5000",
        THEN conjunct2, THEN conjunct2, THEN conjunct2, THEN conjunct2, THEN conjunct2,
        THEN conjunct1] hit1
    by (simp add: ka d)
  have 4: "analyzeRoute ?port ?a (?cab, 34999) = (measured 5000, (?cab, 34999))"
    using cache_round_trip [where c = ?cab and r = ?a and port = ?port and w = 34999
        and m = "measured 5000",
        THEN conjunct2, THEN conjunct2, THEN conjunct2, THEN conjunct2, THEN conjunct2,
        THEN conjunct1] hit2
    by (simp add: ka d)
  have 5: "analyzeRoute ?port ?a (?cab, 35000)
             = (measured 40000, (cache_put ?cab ''A'' (measured 40000) 40000, 40000))"
    using cache_round_trip [where c = ?cab and r = ?a and port = ?port and w = 35000,
        THEN conjunct2, THEN conjunct2, THEN conjunct2, THEN conjunct2, THEN conjunct2,
        THEN conjunct2] miss
    by (simp add: ka d msa)
  have 6: "cache_put ?ca ''A'' (measured 40000) 40000 = cache_put Map.empty ''A'' (measured 40000) 40000"
    using E [THEN conjunct2, THEN conjunct2, THEN conjunct2, THEN conjunct1] .
  from 1 2 3 4 5 6 show ?thesis by (intro conjI)
qed

subsection \<open>The loop of the cycle\<close>





text \<open>
  With the methods of the source no measurement throws: whatever their bodies do (a
  ping that fails, say), a route that is measured gets a sample without an error, which
  holds the fixed values of the methods that failed. The \<^verbatim>\<open>catch\<close> of
  \<^verbatim>\<open>analyzeRoute\<close> serves measurements that throw, which other implementations of the
  five methods may do.
\<close>

lemma NetworkProbe_never_throws:
  "\<exists>m. fst (measure_all (NetworkProbe body) r w) = Inr m \<and> error m = None"
  by (simp add: measure_all_def NetworkProbe_def caught_def split: prod.split sum.split)



subsection \<open>The tunnel and the analysis loop\<close>

lemma wg_connect_result:
  "(\<exists>e. wg_connect env r s = (Inl e, s))
   \<or> wg_connect env r s = (Inr True, s\<lparr>wg_isConnected := True, wg_currentConfig := Some r\<rparr>)"
  by (simp add: wg_connect_def Let_def split: option.split sum.split)

lemma wg_connect_outcome: "fst (wg_connect env r s) = fst (wg_connect env r s0)"
  by (simp add: wg_connect_def Let_def split: option.split sum.split)

lemma connectToRoute_result:
  "(\<exists>e. connectToRoute env r s = (Inl e, s))
   \<or> connectToRoute env r s =
       (Inr True, s\<lparr>wg_isConnected := True, wg_currentConfig := Some r,
                    isConnected := True, currentRoute := Some r\<rparr>)"
  using wg_connect_result [of env r s] by (auto simp: connectToRoute_def)

lemma connectToRoute_outcome: "fst (connectToRoute env r s) = fst (connectToRoute env r s0)"
  using wg_connect_outcome [of env r s s0]
  by (cases "wg_connect env r s"; cases "wg_connect env r s0")
     (auto simp: connectToRoute_def split: sum.splits)

lemma wg_disconnect_result:
  "wg_disconnect env s = (Inr True, s)
   \<or> wg_disconnect env s = (Inr True, s\<lparr>wg_isConnected := False, wg_currentConfig := None\<rparr>)"
  by (simp add: wg_disconnect_def stopAllWireGuard_def split: sum.split)

lemma disconnect_result:
  "disconnect env s = (Inr (), s\<lparr>isConnected := False, currentRoute := None\<rparr>)
   \<or> disconnect env s = (Inr (), s\<lparr>wg_isConnected := False, wg_currentConfig := None,
                                    isConnected := False, currentRoute := None\<rparr>)"
  using wg_disconnect_result [of env s] by (auto simp: disconnect_def)

text \<open>
  The claim C5 as it is written fails: in a state with a tunnel over the route A, whose
  catalog has the route B first, the handler of \<^verbatim>\<open>connect-best-route\<close> answers success
  and the active route becomes B.
\<close>

theorem connect_while_connected_counterexample:
  "isConnected (connected_to (example_route ''A''))
   \<and> currentRoute (connected_to (example_route ''A'')) = Some (example_route ''A'')
   \<and> handle_connect_best_route host_ok (connected_to (example_route ''A''))
       = (Success_route (example_route ''B''),
          (connected_to (example_route ''A''))
            \<lparr>currentRoute := Some (example_route ''B''),
             wg_currentConfig := Some (example_route ''B'')\<rparr>)"
  by (simp add: lifecycle_defs connected_to_def host_ok_def example_route_def)

text \<open>
  C5, as amended. \<^verbatim>\<open>connectToRoute\<close> does not look at the connection state: called
  while connected, it either fails with the error of the provisioning and leaves the
  whole state as it was, or succeeds, keeps the flag set and makes the given route the
  active one; and whether it succeeds is the same as from the initial state.
\<close>

theorem connect_while_connected:
  assumes "isConnected s"
  shows "((\<exists>e. connectToRoute env r s = (Inl e, s))
          \<or> connectToRoute env r s =
              (Inr True, s\<lparr>wg_isConnected := True, wg_currentConfig := Some r,
                           isConnected := True, currentRoute := Some r\<rparr>))
       \<and> fst (connectToRoute env r s) = fst (connectToRoute env r initial)"
  using connectToRoute_result [of env r s] connectToRoute_outcome [of env r s initial] by simp

text \<open>The theorem on a host that rejects the command, with a tunnel over A.\<close>

theorem connect_while_connected_witness:
  "isConnected (connected_to (example_route ''A''))
   \<and> connectToRoute host_failing (example_route ''B'') (connected_to (example_route ''A''))
       = (Inl ''wg-quick: command not found'', connected_to (example_route ''A''))
   \<and> fst (connectToRoute host_failing (example_route ''B'') initial)
       = Inl ''wg-quick: command not found''"
proof -
  have h: "isConnected (connected_to (example_route ''A''))" by (simp add: connected_to_def)
  have f: "fst (connectToRoute host_failing (example_route ''B'') initial)
             = Inl ''wg-quick: command not found''"
    by (simp add: lifecycle_defs host_failing_def example_route_def initial_def)
  from connect_while_connected [OF h, of host_failing "example_route ''B''"] f h show ?thesis
    by auto
qed

text \<open>
  The claim C6 as it is written fails: started from the initial state the loop is
  running, with the handle 0; a second start answers \<^verbatim>\<open>true\<close> and changes the state, a
  second timer being armed and its handle recorded.
\<close>

theorem start_while_running_counterexample:
  "analysisInterval (snd (startNetworkAnalysis no_network initial)) = Some 0
   \<and> startNetworkAnalysis no_network (snd (startNetworkAnalysis no_network initial))
       = (Inr True, (snd (startNetworkAnalysis no_network initial))
            \<lparr>analysisInterval := Some 1, timers := [(0, 5000), (1, 5000)], next_timer := 2\<rparr>)"
  by (simp add: startNetworkAnalysis_def setInterval_def initial_def)

text \<open>
  C6, as amended. \<^verbatim>\<open>startNetworkAnalysis\<close> never fails and does not look at the state
  of the loop: in every state it answers \<^verbatim>\<open>true\<close>, replaces the catalog by the routes
  that \<^verbatim>\<open>discoverRoutes\<close> returns, arms a new timer with the period 5000 ms and
  records its handle in \<^verbatim>\<open>analysisInterval\<close>.
\<close>

theorem startNetworkAnalysis_always_starts:
  "startNetworkAnalysis env s =
     (Inr True, s\<lparr>routes := discoverRoutes env,
                  timers := timers s @ [(next_timer s, 5000)],
                  next_timer := Suc (next_timer s),
                  analysisInterval := Some (next_timer s)\<rparr>)"
  by (simp add: startNetworkAnalysis_def setInterval_def)

subsection \<open>Route discovery\<close>

text \<open>
  Where the enumeration of the interfaces answers, the result is the routes of the
  interfaces, then those of the wireless networks, then those of the default routes,
  and a wireless scan or a route command that fails contributes no route and stops
  nothing: \<^verbatim>\<open>getWifiNetworks\<close> and \<^verbatim>\<open>getSystemRoutes\<close> absorb their own failure.
\<close>

lemma discoverRoutes_absorbed_failures:
  "(\<forall>ifs. networkInterfaces env = Inr ifs \<longrightarrow>
       discoverRoutes env = interface_routes ifs @ wifi_routes (getWifiNetworks env)
                              @ system_routes (getSystemRoutes env))
   \<and> (\<forall>e. wifi_scan env = Inl e \<longrightarrow> getWifiNetworks env = [])
   \<and> (\<forall>e. exec_stdout env (if platform env = ''win32'' then ''route print'' else ''ip route show'')
             = Inl e
         \<longrightarrow> getSystemRoutes env = [])"
  by (auto simp: discoverRoutes_def discoverRoutes_try_def getWifiNetworks_def getSystemRoutes_def)

text \<open>
  On a host whose wireless scan fails, the routes of the interface and of the default
  route are returned; on a host where every collector fails, the result is empty.
\<close>

lemma discoverRoutes_wifi_fails:
  "map route_id (discoverRoutes wifi_fails) = [''eth0'', ''route-0.0.0.0/0'']
   \<and> discoverRoutes no_network = []"
  by (simp add: discovery_defs wifi_fails_def no_network_def eth0_def)

text \<open>
  C8. The claim is that \<^verbatim>\<open>discoverRoutes\<close> never fails and, when some collectors
  fail, returns the routes of the collectors that succeed. It never fails, but
  \<^verbatim>\<open>si.networkInterfaces()\<close> is the one collector that is awaited without a
  \<^verbatim>\<open>catch\<close> of its own: when it throws while the wireless scan and the route command
  answer (one wireless network, one default route), the \<^verbatim>\<open>catch\<close> of
  \<^verbatim>\<open>discoverRoutes\<close> returns the empty catalog and the routes of the two collectors
  that succeed are lost.
\<close>

theorem discoverRoutes_interfaces_fail:
  "networkInterfaces interfaces_fail = Inl ''EPERM''
   \<and> map route_id (wifi_routes (getWifiNetworks interfaces_fail)) = [''wifi-home'']
   \<and> map route_id (system_routes (getSystemRoutes interfaces_fail)) = [''route-0.0.0.0/0'']
   \<and> discoverRoutes interfaces_fail = []"
  by (simp add: discovery_defs interfaces_fail_def home_network_def)

text \<open>
  C9. The claim is that no two routes of a catalog share an id. The id of a gateway
  route is \<^verbatim>\<open>route-\<close> followed by the destination, and both parsers set the destination
  to the constant \<^verbatim>\<open>0.0.0.0/0\<close>; the gateway is not part of the id. On a host with two
  default routes the catalog holds two routes with the id \<^verbatim>\<open>route-0.0.0.0/0\<close> and
  different gateways.
\<close>

theorem discoverRoutes_duplicate_ids:
  "map route_id (discoverRoutes two_defaults)
     = [''eth0'', ''wifi-home'', ''route-0.0.0.0/0'', ''route-0.0.0.0/0'']
   \<and> map gateway (discoverRoutes two_defaults)
     = [None, None, Some ''192.168.1.1'', Some ''10.0.0.1'']
   \<and> \<not> distinct (map route_id (discoverRoutes two_defaults))"
  by (simp add: discovery_defs two_defaults_def home_network_def eth0_def)

text \<open>
  The id is the key of the cache, so the second of the two routes is not measured in
  the cycle: it gets the sample of the first (latency 10 instead of its own 200).
\<close>

lemma duplicate_ids_share_cache:
  "map gateway
     (fst (analyzeRoutes (probe_analyzeRoute by_gateway) (probe_now by_gateway)
            (system_routes (getSystemRoutes two_defaults)) (Map.empty, 0)))
     = [Some ''192.168.1.1'', Some ''10.0.0.1'']
   \<and> map route_latency
     (fst (analyzeRoutes (probe_analyzeRoute by_gateway) (probe_now by_gateway)
            (system_routes (getSystemRoutes two_defaults)) (Map.empty, 0)))
     = [Some 10, Some 10]"
  by (simp add: discovery_defs two_defaults_def cycle_defs by_gateway_def)

subsection \<open>The connection lifecycle\<close>

lemma step_consistent: "consistent s \<Longrightarrow> consistent (snd (step op s))"
proof (cases op)
  case (Start_analysis env)
  assume "consistent s"
  then show ?thesis using Start_analysis
    by (simp add: handle_start_analysis_def startNetworkAnalysis_def setInterval_def consistent_def)
next
  case Stop_analysis
  assume "consistent s"
  then show ?thesis using Stop_analysis
    by (simp add: handle_stop_analysis_def stopNetworkAnalysis_def clearInterval_def consistent_def
             split: option.split)
next
  case (Connect_best_route env)
  assume c: "consistent s"
  show ?thesis
  proof (cases "routes s")
    case Nil
    with c Connect_best_route show ?thesis
      by (simp add: handle_connect_best_route_def findBestRoute_def)
  next
    case (Cons r rs)
    from connectToRoute_result [of env r s] c Cons Connect_best_route show ?thesis
      by (auto simp: handle_connect_best_route_def findBestRoute_def consistent_def)
  qed
next
  case (Disconnect env)
  assume "consistent s"
  with disconnect_result [of env s] Disconnect show ?thesis
    by (auto simp: handle_disconnect_def consistent_def)
qed

lemma run_consistent: "consistent s \<Longrightarrow> consistent (run ops s)"
  by (induction ops arbitrary: s) (simp_all add: step_consistent)

lemma step_failed_unchanged:
  "failed (fst (step op s)) \<Longrightarrow> snd (step op s) = s"
proof (cases op)
  case (Start_analysis env)
  assume "failed (fst (step op s))"
  then show ?thesis using Start_analysis
    by (simp add: handle_start_analysis_def startNetworkAnalysis_def setInterval_def failed_def)
next
  case Stop_analysis
  assume "failed (fst (step op s))"
  then show ?thesis using Stop_analysis
    by (simp add: handle_stop_analysis_def stopNetworkAnalysis_def failed_def split: option.splits)
next
  case (Connect_best_route env)
  assume f: "failed (fst (step op s))"
  show ?thesis
  proof (cases "routes s")
    case Nil
    with Connect_best_route show ?thesis
      by (simp add: handle_connect_best_route_def findBestRoute_def)
  next
    case (Cons r rs)
    from connectToRoute_result [of env r s] f Cons Connect_best_route show ?thesis
      by (auto simp: handle_connect_best_route_def findBestRoute_def failed_def)
  qed
next
  case (Disconnect env)
  assume f: "failed (fst (step op s))"
  with disconnect_result [of env s] Disconnect show ?thesis
    by (auto simp: handle_disconnect_def failed_def)
qed

text \<open>
  C10. In every state reached from the initial state by starting and stopping the
  analysis, connecting and disconnecting, whatever the host answers, the flag
  \<open>isConnected\<close> is set exactly when \<open>currentRoute\<close> is not null. Each of these
  operations keeps that property from any state that has it (whatever its catalog
  is), and an operation that fails leaves both fields as they were.
\<close>

theorem lifecycle_invariant:
  "(isConnected (run ops initial) \<longleftrightarrow> currentRoute (run ops initial) \<noteq> None)
   \<and> ((isConnected s \<longleftrightarrow> currentRoute s \<noteq> None) \<longrightarrow>
        (isConnected (snd (step op s)) \<longleftrightarrow> currentRoute (snd (step op s)) \<noteq> None))
   \<and> (failed (fst (step op s)) \<longrightarrow>
        isConnected (snd (step op s)) = isConnected s
        \<and> currentRoute (snd (step op s)) = currentRoute s)"
proof -
  have "consistent initial" by (simp add: consistent_def initial_def)
  then have "consistent (run ops initial)" by (rule run_consistent)
  then show ?thesis
    using step_failed_unchanged [of op s] step_consistent [of s op]
    by (auto simp: consistent_def)
qed

lemma wired_only_routes: "discoverRoutes wired_only = interface_routes [eth0]"
  by (simp add: discovery_defs wired_only_def)

text \<open>
  The theorem after a start and a successful connection, for a second connection that
  fails: the tunnel stays recorded.
\<close>

theorem lifecycle_invariant_witness:
  "isConnected (run [Start_analysis wired_only, Connect_best_route host_ok] initial)
   \<and> currentRoute (run [Start_analysis wired_only, Connect_best_route host_ok] initial) \<noteq> None
   \<and> failed (fst (step (Connect_best_route host_failing)
                    (run [Start_analysis wired_only, Connect_best_route host_ok] initial)))
   \<and> isConnected (snd (step (Connect_best_route host_failing)
                    (run [Start_analysis wired_only, Connect_best_route host_ok] initial)))
   \<and> currentRoute (snd (step (Connect_best_route host_failing)
                    (run [Start_analysis wired_only, Connect_best_route host_ok] initial))) \<noteq> None"
proof -
  let ?s = "run [Start_analysis wired_only, Connect_best_route host_ok] initial"
  have c: "isConnected ?s"
    by (simp add: lifecycle_defs wired_only_routes interface_routes_def eth0_def host_ok_def
          initial_def)
  have r: "routes ?s = interface_routes [eth0]"
    by (simp add: lifecycle_defs wired_only_routes interface_routes_def eth0_def host_ok_def
          initial_def)
  have f: "failed (fst (step (Connect_best_route host_failing) ?s))"
    by (simp add: r lifecycle_defs interface_routes_def eth0_def host_failing_def failed_def
          split: prod.split sum.split)
  from lifecycle_invariant [of "[Start_analysis wired_only, Connect_best_route host_ok]" ?s
        "Connect_best_route host_failing"] c f
  show ?thesis by blast
qed

end
